theory Spec2Isabelle
  imports Complex_Main "HOL-Library.Char_ord" "HOL-Library.List_Lexorder" "HOL-Library.Option_ord"
begin

section \<open>Data model\<close>

text \<open>
  An identifier is \<^verbatim>\<open>string | number\<close> (interface \<^verbatim>\<open>Event\<close>): the primary store and the
  local cache hand out numbers, the secondary store hands out document names.
\<close>

datatype ident = IdStr string | IdNum int

text \<open>
  A JavaScript number as far as the coordinates need it: a finite value, or one of the
  three values that are not finite. \<^verbatim>\<open>parseFloat\<close> yields \<open>NaN\<close> on text that does not start
  with a number.
\<close>

datatype js_number = Fin real | NaN | PosInfinity | NegInfinity

text \<open>
  One record serves the event in every place it travels: the form state, the object
  \<^verbatim>\<open>newEvent\<close>, a JSON body, a document of the secondary store, a row of the local cache
  and an entry of the listing. A property that is \<^verbatim>\<open>undefined\<close>, \<^verbatim>\<open>null\<close> or not there is
  \<open>None\<close>. The fields are those of the interface \<^verbatim>\<open>Event\<close> and of the table \<^verbatim>\<open>events\<close>.
\<close>

record event =
  id_of :: "ident option"
  name :: "string option"
  type :: "string option"
  district :: "string option"
  upazila :: "string option"
  village :: "string option"
  address :: "string option"
  date_range :: "string option"
  start_time :: "string option"
  iftar_time :: "string option"
  contact :: "string option"
  description :: "string option"
  image_url :: "string option"
  lat :: "js_number option"
  lng :: "js_number option"
  link_url :: "string option"
  event_date :: "string option"
  event_day :: "string option"
  created_at :: "string option"

text \<open>What an HTTP handler of the server answers: the status and the JSON body.\<close>

datatype json_body =
    ErrorBody string
  | SuccessBody
  | SuccessId int
  | SuccessFileId string
  | EventsBody "event list"

record response =
  status :: nat
  body :: json_body

section \<open>The local cache (server.ts)\<close>

text \<open>
  The table \<^verbatim>\<open>events\<close>: its rows in insertion order and the counter behind
  \<^verbatim>\<open>INTEGER PRIMARY KEY AUTOINCREMENT\<close>. The handle \<^verbatim>\<open>db\<close> stays undefined when opening
  the database failed, which is \<open>None\<close> here.
\<close>

record events_table =
  rows :: "event list"
  seq :: int

type_synonym database = "events_table option"

text \<open>\<^verbatim>\<open>x || null\<close> on a text property: the empty string is falsy.\<close>

definition or_null :: "string option \<Rightarrow> string option" where
  "or_null x = (case x of None \<Rightarrow> None | Some s \<Rightarrow> if s = [] then None else Some s)"

text \<open>
  \<^verbatim>\<open>POST /api/events\<close>. \<open>server_now\<close> is the server's \<^verbatim>\<open>new Date().toISOString()\<close> and
  \<open>stmt_throws\<close> says that preparing or running the statement raised. The text columns
  take \<^verbatim>\<open>x || null\<close>; the coordinates take \<^verbatim>\<open>x ?? null\<close>, which keeps a number and turns
  an absent property into \<^verbatim>\<open>null\<close>, both \<open>None\<close> here.
\<close>

definition insert_row :: "event \<Rightarrow> string \<Rightarrow> int \<Rightarrow> event" where
  "insert_row ev server_now k =
     \<lparr> id_of = Some (IdNum k),
       name = or_null (name ev),
       type = or_null (type ev),
       district = or_null (district ev),
       upazila = or_null (upazila ev),
       village = or_null (village ev),
       address = or_null (address ev),
       date_range = or_null (date_range ev),
       start_time = or_null (start_time ev),
       iftar_time = or_null (iftar_time ev),
       contact = or_null (contact ev),
       description = or_null (description ev),
       image_url = or_null (image_url ev),
       lat = lat ev,
       lng = lng ev,
       link_url = or_null (link_url ev),
       event_date = or_null (event_date ev),
       event_day = or_null (event_day ev),
       created_at = Some (case or_null (created_at ev) of None \<Rightarrow> server_now | Some s \<Rightarrow> s) \<rparr>"

definition post_api_events ::
  "database \<Rightarrow> event \<Rightarrow> string \<Rightarrow> bool \<Rightarrow> response \<times> database" where
  "post_api_events db ev server_now stmt_throws =
     (case db of
        None \<Rightarrow> (\<lparr>status = 500, body = ErrorBody ''Database not initialized''\<rparr>, db)
      | Some t \<Rightarrow>
          if stmt_throws
          then (\<lparr>status = 500, body = ErrorBody ''Failed to add event to database''\<rparr>, db)
          else (\<lparr>status = 200, body = SuccessId (seq t + 1)\<rparr>,
                Some \<lparr>rows = rows t @ [insert_row ev server_now (seq t + 1)], seq = seq t + 1\<rparr>))"

text \<open>
  \<^verbatim>\<open>WHERE id = ?\<close>: the key column is an integer. A bound number is compared as it is; a
  bound text is first converted by the column's numeric affinity, which is the engine's
  business and is the parameter \<open>coerce\<close> (\<open>None\<close> when the text is no number, and then no
  row matches).
\<close>

definition sql_id_eq :: "(string \<Rightarrow> int option) \<Rightarrow> ident \<Rightarrow> event \<Rightarrow> bool" where
  "sql_id_eq coerce i r =
     (case id_of r of
        Some (IdNum k) \<Rightarrow> (case i of IdNum n \<Rightarrow> n = k | IdStr s \<Rightarrow> coerce s = Some k)
      | _ \<Rightarrow> False)"

text \<open>\<^verbatim>\<open>POST /api/events/delete\<close>.\<close>

definition post_api_events_delete ::
  "(string \<Rightarrow> int option) \<Rightarrow> database \<Rightarrow> ident \<Rightarrow> bool \<Rightarrow> response \<times> database" where
  "post_api_events_delete coerce db i stmt_throws =
     (case db of
        None \<Rightarrow> (\<lparr>status = 500, body = ErrorBody ''Database not initialized''\<rparr>, db)
      | Some t \<Rightarrow>
          if stmt_throws
          then (\<lparr>status = 500, body = ErrorBody ''Failed to delete event''\<rparr>, db)
          else (\<lparr>status = 200, body = SuccessBody\<rparr>,
                Some (t\<lparr>rows := filter (\<lambda>r. \<not> sql_id_eq coerce i r) (rows t)\<rparr>)))"

text \<open>
  \<^verbatim>\<open>GET /api/events\<close>: \<^verbatim>\<open>SELECT * FROM events ORDER BY created_at DESC\<close>. The column is
  \<^verbatim>\<open>TEXT\<close>, compared byte by byte, and \<^verbatim>\<open>NULL\<close> is below every text, so it comes last in
  descending order. Rows with the same text stay in the order of insertion (SQL leaves
  their order open).
\<close>

definition order_by_created_at_desc :: "event list \<Rightarrow> event list" where
  "order_by_created_at_desc rs = rev (sort_key created_at (rev rs))"

definition get_api_events :: "database \<Rightarrow> bool \<Rightarrow> response" where
  "get_api_events db stmt_throws =
     (case db of
        None \<Rightarrow> \<lparr>status = 500, body = ErrorBody ''Database not initialized''\<rparr>
      | Some t \<Rightarrow>
          if stmt_throws
          then \<lparr>status = 500, body = ErrorBody ''Failed to fetch events''\<rparr>
          else \<lparr>status = 200, body = EventsBody (order_by_created_at_desc (rows t))\<rparr>)"


section \<open>The drive export (server.ts)\<close>

text \<open>
  The requests the handler sends to the drive service, in order. A file is created with
  its name, its parent folder and its content; the content is
  \<^verbatim>\<open>JSON.stringify(eventData, null, 2)\<close>, kept here as the event it renders.
\<close>

datatype file_content = Json_indent2 event

datatype drive_call =
    FilesList string
  | CreateFolder string string
  | CreateFile string string string file_content

text \<open>
  What the drive service answers to each request the handler may send, \<open>None\<close> when the
  request raises: the identifiers of the folders found, the identifier of a folder
  created, the identifier of a file created. \<open>date_now\<close> is the server's \<^verbatim>\<open>Date.now()\<close>.
\<close>

record drive_env =
  files_list :: "string list option"
  create_folder :: "string option"
  create_file :: "string option"
  date_now :: int

text \<open>A number inside a template literal: its decimal digits.\<close>

definition digit_char :: "nat \<Rightarrow> char" where
  "digit_char d = ''0123456789'' ! d"

fun decimal_digits :: "nat \<Rightarrow> string \<Rightarrow> string" where
  "decimal_digits n acc =
     (if n < 10 then digit_char n # acc
      else decimal_digits (n div 10) (digit_char (n mod 10) # acc))"

declare decimal_digits.simps [simp del]

definition Number_toString :: "int \<Rightarrow> string" where
  "Number_toString i =
     (if i < 0 then CHR ''-'' # decimal_digits (nat (- i)) [] else decimal_digits (nat i) [])"

text \<open>
  A text property inside a template literal: one that is not there prints as
  \<^verbatim>\<open>undefined\<close>.
\<close>

definition template_text :: "string option \<Rightarrow> string" where
  "template_text x = (case x of None \<Rightarrow> ''undefined'' | Some s \<Rightarrow> s)"

definition folder_query :: string where
  "folder_query =
     ''name = '' @ [CHR 0x27] @ ''Iftar Shondhane'' @ [CHR 0x27] @
     '' and mimeType = '' @ [CHR 0x27] @ ''application/vnd.google-apps.folder'' @ [CHR 0x27] @
     '' and trashed = false''"

definition file_name :: "event \<Rightarrow> int \<Rightarrow> string" where
  "file_name eventData now = template_text (name eventData) @ ''_'' @ Number_toString now @ ''.json''"

text \<open>
  The second step of the handler, once the folder is known. Reading
  \<^verbatim>\<open>eventData.name\<close> raises when the body had no \<^verbatim>\<open>eventData\<close>.
\<close>

definition create_event_file ::
  "drive_env \<Rightarrow> event option \<Rightarrow> string \<Rightarrow> drive_call list \<Rightarrow> response \<times> drive_call list" where
  "create_event_file env eventData folderId sent =
     (case eventData of
        None \<Rightarrow> (\<lparr>status = 500, body = ErrorBody ''Failed to save to Drive''\<rparr>, sent)
      | Some ev \<Rightarrow>
          let sent' = sent @ [CreateFile (file_name ev (date_now env)) folderId
                                ''application/json'' (Json_indent2 ev)]
          in (case create_file env of
                None \<Rightarrow> (\<lparr>status = 500, body = ErrorBody ''Failed to save to Drive''\<rparr>, sent')
              | Some fileId \<Rightarrow> (\<lparr>status = 200, body = SuccessFileId fileId\<rparr>, sent')))"

text \<open>
  \<^verbatim>\<open>POST /api/drive/save\<close>: the tokens of the session, the \<^verbatim>\<open>eventData\<close> of the body, and
  the answers of the drive service. The result is the response and the requests sent.
\<close>

definition drive_save ::
  "'tok option \<Rightarrow> event option \<Rightarrow> drive_env \<Rightarrow> response \<times> drive_call list" where
  "drive_save tokens eventData env =
     (case tokens of
        None \<Rightarrow> (\<lparr>status = 401, body = ErrorBody ''Not connected to Google Drive''\<rparr>, [])
      | Some _ \<Rightarrow>
          (case files_list env of
             None \<Rightarrow> (\<lparr>status = 500, body = ErrorBody ''Failed to save to Drive''\<rparr>,
                      [FilesList folder_query])
           | Some [] \<Rightarrow>
               (case create_folder env of
                  None \<Rightarrow> (\<lparr>status = 500, body = ErrorBody ''Failed to save to Drive''\<rparr>,
                           [FilesList folder_query,
                            CreateFolder ''Iftar Shondhane'' ''application/vnd.google-apps.folder''])
                | Some folderId \<Rightarrow>
                    create_event_file env eventData folderId
                      [FilesList folder_query,
                       CreateFolder ''Iftar Shondhane'' ''application/vnd.google-apps.folder''])
           | Some (folderId # _) \<Rightarrow>
               create_event_file env eventData folderId [FilesList folder_query]))"

text \<open>The drive service failed: a request that the handler sends raised.\<close>

definition drive_api_fails :: "drive_env \<Rightarrow> bool" where
  "drive_api_fails env =
     (files_list env = None
      \<or> (files_list env = Some [] \<and> create_folder env = None)
      \<or> create_file env = None)"

section \<open>The client (component App)\<close>

text \<open>An awaited call either resolves or rejects (or, for the stores, reports an error).\<close>

datatype outcome = Resolves | Rejects

text \<open>The filters of the search form; an empty text is an inactive filter.\<close>

record filters =
  district_filter :: string
  upazila_filter :: string
  village_filter :: string
  type_filter :: string

text \<open>
  The query built for the primary store. \<open>nulls_first\<close> is the option \<^verbatim>\<open>nullsFirst\<close> of
  \<^verbatim>\<open>order\<close>, \<open>None\<close> when the call does not give it; the store then places the rows without
  a value by its own default.
\<close>

record query =
  order_column :: string
  ascending :: bool
  nulls_first :: "bool option"
  eq_district :: "string option"
  eq_type :: "string option"
  ilike_upazila :: "string option"
  ilike_village :: "string option"

text \<open>
  The requests to the backends. The listing of the local cache, \<^verbatim>\<open>GET /api/events\<close>, is
  among them so that one can say that no handler of the client sends it.
\<close>

datatype call =
    SupabaseSelect query
  | SupabaseInsert event
  | SupabaseDelete ident
  | FirebaseGetDocs
  | FirebaseAddDoc event
  | FirebaseDeleteDoc string
  | GetApiEvents
  | PostApiEvents event
  | PostApiEventsDelete ident
  | PostDriveSave event

datatype alert = AlertWrongPassword | AlertDeleteFailed | AlertAdded | AlertAddFailed

datatype log_entry = LogWarn string | LogError string

text \<open>
  How a handler ended: it returned before its \<^verbatim>\<open>try\<close> block, it ran the block to its end,
  or it entered the \<^verbatim>\<open>catch\<close> block.
\<close>

datatype ending = NotStarted | Success | Failure

text \<open>
  What a handler did: how it ended, the alerts shown, the console, the requests sent in
  order, the local cache afterwards, and whether \<^verbatim>\<open>fetchEvents()\<close> was called to refresh
  the list. \<^verbatim>\<open>handleSubmit\<close> also leaves a form state.
\<close>

record effects =
  ending :: ending
  alerts :: "alert list"
  console :: "log_entry list"
  calls :: "call list"
  cache :: database
  refreshed :: bool

record submit_effects = effects +
  formData_after :: event

subsection \<open>handleSubmit\<close>

text \<open>
  \<^verbatim>\<open>JSON.stringify\<close> of an event: a property that is not there is left out, and a number
  that is not finite is written \<^verbatim>\<open>null\<close>.
\<close>

definition json_number :: "js_number option \<Rightarrow> js_number option" where
  "json_number x = (case x of Some (Fin r) \<Rightarrow> Some (Fin r) | _ \<Rightarrow> None)"

definition JSON_stringify :: "event \<Rightarrow> event" where
  "JSON_stringify ev = ev\<lparr>lat := json_number (lat ev), lng := json_number (lng ev)\<rparr>"

text \<open>The form as \<^verbatim>\<open>setFormData\<close> resets it after a submission.\<close>

definition empty_form :: event where
  "empty_form =
     \<lparr> id_of = None, name = Some [], type = Some ''public_iftar'', district = Some [],
       upazila = Some [], village = Some [], address = Some [], date_range = Some [],
       start_time = Some [], iftar_time = Some [], contact = Some [], description = Some [],
       image_url = Some [], lat = None, lng = None, link_url = Some [],
       event_date = Some [], event_day = Some [], created_at = None \<rparr>"

text \<open>
  The outcomes of the calls \<^verbatim>\<open>handleSubmit\<close> awaits, and the clocks: \<open>now\<close> is the browser's
  \<^verbatim>\<open>new Date().toISOString()\<close>.
\<close>

record submit_env =
  now :: string
  supabase_insert :: outcome
  firebase_addDoc :: outcome
  fetch_api_events :: outcome
  fetch_drive_save :: outcome
  insert_server_now :: string
  insert_stmt_throws :: bool

definition handleSubmit ::
  "submit_env \<Rightarrow> bool \<Rightarrow> bool \<Rightarrow> event \<Rightarrow> database \<Rightarrow> submit_effects" where
  "handleSubmit env isSubmitting isGoogleConnected formData db =
     (if isSubmitting
      then \<lparr>ending = NotStarted, alerts = [], console = [], calls = [], cache = db,
            refreshed = False, formData_after = formData\<rparr>
      else
        let newEvent = formData\<lparr>created_at := Some (now env)\<rparr> in
        (case supabase_insert env of
           Rejects \<Rightarrow>
             \<lparr>ending = Failure, alerts = [AlertAddFailed],
              console = [LogError ''Failed to add event:''],
              calls = [SupabaseInsert newEvent], cache = db,
              refreshed = False, formData_after = formData\<rparr>
         | Resolves \<Rightarrow>
             let log2 = (case firebase_addDoc env of
                           Rejects \<Rightarrow> [LogWarn ''Firebase backup failed'']
                         | Resolves \<Rightarrow> []);
                 log3 = (case fetch_api_events env of
                           Rejects \<Rightarrow> [LogWarn ''SQLite save failed'']
                         | Resolves \<Rightarrow> []);
                 db3 = (case fetch_api_events env of
                          Rejects \<Rightarrow> db
                        | Resolves \<Rightarrow>
                            snd (post_api_events db (JSON_stringify newEvent)
                                   (insert_server_now env) (insert_stmt_throws env)));
                 log4 = (if isGoogleConnected
                         then (case fetch_drive_save env of
                                 Rejects \<Rightarrow> [LogError ''Failed to save to Google Drive'']
                               | Resolves \<Rightarrow> [])
                         else []);
                 calls4 = (if isGoogleConnected
                           then [PostDriveSave (JSON_stringify formData)] else [])
             in \<lparr>ending = Success, alerts = [AlertAdded],
                 console = log2 @ log3 @ log4,
                 calls = [SupabaseInsert newEvent, FirebaseAddDoc newEvent,
                          PostApiEvents (JSON_stringify newEvent)] @ calls4,
                 cache = db3, refreshed = True, formData_after = empty_form\<rparr>))"

text \<open>The event a request for a write carries, if it is one.\<close>

fun written :: "call \<Rightarrow> event option" where
  "written (SupabaseInsert ev) = Some ev"
| "written (FirebaseAddDoc ev) = Some ev"
| "written (PostApiEvents ev) = Some ev"
| "written (PostDriveSave ev) = Some ev"
| "written _ = None"

text \<open>
  The coordinates that the requests of a handler carry, request by request: \<open>None\<close> for a
  request that writes no event, \<open>Some None\<close> for an event without the coordinate.
\<close>

definition sent_lat :: "call list \<Rightarrow> js_number option option list" where
  "sent_lat cs = map (\<lambda>c. map_option lat (written c)) cs"

definition sent_lng :: "call list \<Rightarrow> js_number option option list" where
  "sent_lng cs = map (\<lambda>c. map_option lng (written c)) cs"

subsection \<open>The coordinate inputs of the form\<close>

text \<open>
  \<^verbatim>\<open>onChange\<close> of the two inputs stores \<^verbatim>\<open>parseFloat(e.target.value)\<close>. The parser is the
  platform's and is the parameter \<open>parseFloat\<close>.
\<close>

definition onChange_lat :: "(string \<Rightarrow> js_number) \<Rightarrow> string \<Rightarrow> event \<Rightarrow> event" where
  "onChange_lat parseFloat v formData = formData\<lparr>lat := Some (parseFloat v)\<rparr>"

definition onChange_lng :: "(string \<Rightarrow> js_number) \<Rightarrow> string \<Rightarrow> event \<Rightarrow> event" where
  "onChange_lng parseFloat v formData = formData\<lparr>lng := Some (parseFloat v)\<rparr>"

subsection \<open>deleteEvent\<close>

text \<open>
  What the user answers to the two dialogs (\<^verbatim>\<open>window.prompt\<close> gives \<^verbatim>\<open>null\<close> when
  dismissed), and the outcomes of the calls \<^verbatim>\<open>deleteEvent\<close> awaits.
\<close>

record delete_env =
  password :: "string option"
  confirmed :: bool
  supabase_delete :: outcome
  firebase_deleteDoc :: outcome
  fetch_api_delete :: outcome
  delete_stmt_throws :: bool

definition deleteEvent ::
  "delete_env \<Rightarrow> (string \<Rightarrow> int option) \<Rightarrow> ident \<Rightarrow> database \<Rightarrow> effects" where
  "deleteEvent env coerce i db =
     (if password env \<noteq> Some ''0179215718''
      then \<lparr>ending = NotStarted, alerts = [AlertWrongPassword], console = [], calls = [],
            cache = db, refreshed = False\<rparr>
      else if \<not> confirmed env
      then \<lparr>ending = NotStarted, alerts = [], console = [], calls = [],
            cache = db, refreshed = False\<rparr>
      else
        (case supabase_delete env of
           Rejects \<Rightarrow>
             \<lparr>ending = Failure, alerts = [AlertDeleteFailed],
              console = [LogError ''Failed to delete event''],
              calls = [SupabaseDelete i], cache = db,
              refreshed = False\<rparr>
         | Resolves \<Rightarrow>
             let calls2 = (case i of IdStr s \<Rightarrow> [FirebaseDeleteDoc s] | IdNum _ \<Rightarrow> []);
                 log2 = (case i of
                           IdStr s \<Rightarrow> (case firebase_deleteDoc env of
                                         Rejects \<Rightarrow> [LogWarn ''Firebase delete failed'']
                                       | Resolves \<Rightarrow> [])
                         | IdNum _ \<Rightarrow> [])
             in (case fetch_api_delete env of
                   Rejects \<Rightarrow>
                     \<lparr>ending = Failure, alerts = [AlertDeleteFailed],
                      console = log2 @ [LogError ''Failed to delete event''],
                      calls = [SupabaseDelete i] @ calls2 @ [PostApiEventsDelete i],
                      cache = db, refreshed = False\<rparr>
                 | Resolves \<Rightarrow>
                     \<lparr>ending = Success, alerts = [], console = log2,
                      calls = [SupabaseDelete i] @ calls2 @ [PostApiEventsDelete i],
                      cache = snd (post_api_events_delete coerce db i (delete_stmt_throws env)),
                      refreshed = True\<rparr>)))"

subsection \<open>fetchEvents\<close>

definition build_query :: "filters \<Rightarrow> query" where
  "build_query flt =
     \<lparr> order_column = ''created_at'', ascending = False, nulls_first = None,
       eq_district = (if district_filter flt \<noteq> [] then Some (district_filter flt) else None),
       eq_type = (if type_filter flt \<noteq> [] then Some (type_filter flt) else None),
       ilike_upazila = (if upazila_filter flt \<noteq> []
                        then Some (''%'' @ upazila_filter flt @ ''%'') else None),
       ilike_village = (if village_filter flt \<noteq> []
                        then Some (''%'' @ village_filter flt @ ''%'') else None) \<rparr>"

text \<open>\<^verbatim>\<open>s.includes(t)\<close>: \<open>t\<close> occurs in \<open>s\<close> at some position.\<close>

fun includes_text :: "string \<Rightarrow> string \<Rightarrow> bool" where
  "includes_text [] t = (t = [])"
| "includes_text (c # s) t = (take (length t) (c # s) = t \<or> includes_text s t)"

text \<open>
  \<^verbatim>\<open>x?.toLowerCase().includes(f.toLowerCase())\<close>: \<^verbatim>\<open>undefined\<close>, which is falsy, when the
  property is absent. \<^verbatim>\<open>toLowerCase\<close> is the platform's and is the parameter \<open>toLowerCase\<close>.
\<close>

definition includes_lower :: "(string \<Rightarrow> string) \<Rightarrow> string option \<Rightarrow> string \<Rightarrow> bool" where
  "includes_lower toLowerCase x f =
     (case x of None \<Rightarrow> False | Some s \<Rightarrow> includes_text (toLowerCase s) (toLowerCase f))"

text \<open>The flag \<^verbatim>\<open>matches\<close> of the fallback loop, after its four tests.\<close>

definition matches :: "(string \<Rightarrow> string) \<Rightarrow> filters \<Rightarrow> event \<Rightarrow> bool" where
  "matches toLowerCase flt data =
     (let m0 = True;
          m1 = (if district_filter flt \<noteq> [] \<and> district data \<noteq> Some (district_filter flt)
                then False else m0);
          m2 = (if type_filter flt \<noteq> [] \<and> type data \<noteq> Some (type_filter flt)
                then False else m1);
          m3 = (if upazila_filter flt \<noteq> []
                   \<and> \<not> includes_lower toLowerCase (upazila data) (upazila_filter flt)
                then False else m2);
          m4 = (if village_filter flt \<noteq> []
                   \<and> \<not> includes_lower toLowerCase (village data) (village_filter flt)
                then False else m3)
      in m4)"

text \<open>\<^verbatim>\<open>{ id: doc.id, ...data }\<close>: the document's name, unless the data has an \<^verbatim>\<open>id\<close> itself.\<close>

definition with_doc_id :: "string \<Rightarrow> event \<Rightarrow> event" where
  "with_doc_id docId data =
     (case id_of data of None \<Rightarrow> data\<lparr>id_of := Some (IdStr docId)\<rparr> | Some _ \<Rightarrow> data)"

text \<open>The loop over the snapshot: the matching documents are pushed in order.\<close>

fun collect :: "(string \<Rightarrow> string) \<Rightarrow> filters \<Rightarrow> (string \<times> event) list \<Rightarrow> event list" where
  "collect toLowerCase flt [] = []"
| "collect toLowerCase flt ((docId, data) # docs) =
     (if matches toLowerCase flt data
      then with_doc_id docId data # collect toLowerCase flt docs
      else collect toLowerCase flt docs)"

text \<open>
  The sort key of the fallback: the time of \<^verbatim>\<open>created_at\<close> in milliseconds since the
  epoch, and 0 when the property is absent or empty. \<^verbatim>\<open>new Date(s).getTime()\<close> is the
  platform's and is the parameter \<open>getTime\<close>; \<open>None\<close> is its \<open>NaN\<close> on a text that is no date.
\<close>

definition sort_time :: "(string \<Rightarrow> int option) \<Rightarrow> event \<Rightarrow> int option" where
  "sort_time getTime e =
     (case created_at e of
        None \<Rightarrow> Some 0
      | Some s \<Rightarrow> if s = [] then Some 0 else getTime s)"

text \<open>The sort key as a number; 0 stands in where it is \<open>NaN\<close>.\<close>

definition sort_ms :: "(string \<Rightarrow> int option) \<Rightarrow> event \<Rightarrow> int" where
  "sort_ms getTime e = (case sort_time getTime e of None \<Rightarrow> 0 | Some t \<Rightarrow> t)"

text \<open>The comparator \<^verbatim>\<open>dateB - dateA\<close>; a difference with \<open>NaN\<close> is \<open>NaN\<close>.\<close>

definition compare_created_at :: "(string \<Rightarrow> int option) \<Rightarrow> event \<Rightarrow> event \<Rightarrow> int option" where
  "compare_created_at getTime a b =
     (case (sort_time getTime a, sort_time getTime b) of
        (Some dateA, Some dateB) \<Rightarrow> Some (dateB - dateA)
      | _ \<Rightarrow> None)"

text \<open>
  \<^verbatim>\<open>Array.prototype.sort\<close> with a comparator: \<open>a\<close> goes after \<open>b\<close> when the comparator is
  positive, and a \<open>NaN\<close> counts as 0. The sort is stable. With a consistent comparator
  every engine returns this list; with another one the order is the engine's choice.
\<close>

definition comes_after :: "('a \<Rightarrow> 'a \<Rightarrow> int option) \<Rightarrow> 'a \<Rightarrow> 'a \<Rightarrow> bool" where
  "comes_after comparefn a b = (case comparefn a b of None \<Rightarrow> False | Some v \<Rightarrow> 0 < v)"

fun insert_sorted :: "('a \<Rightarrow> 'a \<Rightarrow> int option) \<Rightarrow> 'a \<Rightarrow> 'a list \<Rightarrow> 'a list" where
  "insert_sorted comparefn x [] = [x]"
| "insert_sorted comparefn x (y # ys) =
     (if comes_after comparefn x y then y # insert_sorted comparefn x ys else x # y # ys)"

fun Array_sort :: "('a \<Rightarrow> 'a \<Rightarrow> int option) \<Rightarrow> 'a list \<Rightarrow> 'a list" where
  "Array_sort comparefn [] = []"
| "Array_sort comparefn (x # xs) = insert_sorted comparefn x (Array_sort comparefn xs)"

text \<open>
  The answers of the two stores: the primary store gives an error or \<^verbatim>\<open>data\<close> (which may
  be \<^verbatim>\<open>null\<close>); the secondary store raises or gives the documents, each with its name.
\<close>

datatype primary_reply = PrimaryError | PrimaryData "event list option"

datatype secondary_reply = SecondaryError | Snapshot "(string \<times> event) list"

record listing =
  events :: "event list"
  requests :: "call list"
  logged :: "log_entry list"

definition fetchEvents ::
  "(string \<Rightarrow> int option) \<Rightarrow> (string \<Rightarrow> string) \<Rightarrow> filters \<Rightarrow> primary_reply \<Rightarrow>
   secondary_reply \<Rightarrow> event list \<Rightarrow> listing" where
  "fetchEvents getTime toLowerCase flt primary secondary old_events =
     (case primary of
        PrimaryData (Some data) \<Rightarrow>
          \<lparr>events = data, requests = [SupabaseSelect (build_query flt)], logged = []\<rparr>
      | PrimaryData None \<Rightarrow>
          \<lparr>events = old_events, requests = [SupabaseSelect (build_query flt)], logged = []\<rparr>
      | PrimaryError \<Rightarrow>
          (case secondary of
             SecondaryError \<Rightarrow>
               \<lparr>events = old_events,
                requests = [SupabaseSelect (build_query flt), FirebaseGetDocs],
                logged = [LogError ''Failed to fetch events from Supabase'',
                          LogError ''Firebase fallback failed'']\<rparr>
           | Snapshot docs \<Rightarrow>
               \<lparr>events = Array_sort (compare_created_at getTime)
                           (collect toLowerCase flt docs),
                requests = [SupabaseSelect (build_query flt), FirebaseGetDocs],
                logged = [LogError ''Failed to fetch events from Supabase'']\<rparr>))"

section \<open>Sample inputs\<close>

text \<open>A filled form, a cache table holding one row, and the outcomes of one submission.\<close>

definition sample_form :: event where
  "sample_form =
     \<lparr> id_of = None, name = Some ''Community Iftar'', type = Some ''public_iftar'',
       district = Some ''Dhaka'', upazila = Some ''Savar'', village = Some ''Ashulia'',
       address = Some ''Mosque Road'', date_range = Some [], start_time = Some ''17:30'',
       iftar_time = Some [], contact = Some ''01700000000'', description = Some [],
       image_url = Some [], lat = None, lng = None, link_url = Some [],
       event_date = Some ''10 Ramadan'', event_day = Some ''Friday'', created_at = None \<rparr>"

definition sample_table :: events_table where
  "sample_table = \<lparr>rows = [insert_row sample_form ''2026-02-27T09:00:00.000Z'' 1], seq = 1\<rparr>"

definition submit_env_of :: "outcome \<Rightarrow> outcome \<Rightarrow> outcome \<Rightarrow> outcome \<Rightarrow> submit_env" where
  "submit_env_of p s c d =
     \<lparr> now = ''2026-02-28T10:15:00.000Z'', supabase_insert = p, firebase_addDoc = s,
       fetch_api_events = c, fetch_drive_save = d,
       insert_server_now = ''2026-02-28T10:15:01.250Z'', insert_stmt_throws = False \<rparr>"

definition delete_env_of ::
  "string option \<Rightarrow> outcome \<Rightarrow> outcome \<Rightarrow> outcome \<Rightarrow> delete_env" where
  "delete_env_of pw p s c =
     \<lparr> password = pw, confirmed = True, supabase_delete = p, firebase_deleteDoc = s,
       fetch_api_delete = c, delete_stmt_throws = False \<rparr>"

definition drive_env_of :: "string list option \<Rightarrow> string option \<Rightarrow> string option \<Rightarrow> drive_env" where
  "drive_env_of found folder file =
     \<lparr> files_list = found, create_folder = folder, create_file = file,
       date_now = 1772273700000 \<rparr>"

definition drive_env_at :: "int \<Rightarrow> drive_env" where
  "drive_env_at ms =
     \<lparr> files_list = Some [''d1''], create_folder = None, create_file = Some ''f1'',
       date_now = ms \<rparr>"

text \<open>A listed event: the form of the sample with an identifier and a creation timestamp.\<close>

definition sample_event :: event where
  "sample_event = sample_form\<lparr>id_of := Some (IdNum 1), created_at := Some ''2026-02-28T10:15:00.000Z''\<rparr>"

text \<open>
  The platform functions at the texts used below: \<^verbatim>\<open>toLowerCase\<close> on ASCII letters,
  \<^verbatim>\<open>new Date(s).getTime()\<close> at three ISO timestamps (milliseconds since the epoch; the
  third is one second before it), and \<^verbatim>\<open>parseFloat\<close> at two numerals. The theorems hold
  for every such function; these are for running the definitions.
\<close>

definition lower_char :: "char \<Rightarrow> char" where
  "lower_char c =
     (case map_of (zip ''ABCDEFGHIJKLMNOPQRSTUVWXYZ'' ''abcdefghijklmnopqrstuvwxyz'') c of
        None \<Rightarrow> c
      | Some l \<Rightarrow> l)"

definition toLowerCase_ascii :: "string \<Rightarrow> string" where
  "toLowerCase_ascii s = map lower_char s"

definition getTime_sample :: "string \<Rightarrow> int option" where
  "getTime_sample s =
     (if s = ''2026-02-28T10:15:00.000Z'' then Some 1772273700000
      else if s = ''2026-03-01T10:15:00.000Z'' then Some 1772360100000
      else if s = ''1969-12-31T23:59:59.000Z'' then Some (- 1000)
      else None)"

definition parseFloat_sample :: "string \<Rightarrow> js_number" where
  "parseFloat_sample s = (if s = ''23.81'' then Fin 23.81 else if s = ''90.41'' then Fin 90.41 else NaN)"

text \<open>Documents of the secondary store, and two sets of filters.\<close>

definition doc_of :: "string \<Rightarrow> string \<Rightarrow> string option \<Rightarrow> event" where
  "doc_of d u c = sample_form\<lparr>district := Some d, upazila := Some u, created_at := c\<rparr>"

definition sample_filters :: filters where
  "sample_filters =
     \<lparr>district_filter = ''Dhaka'', upazila_filter = ''sav'', village_filter = [], type_filter = []\<rparr>"

definition no_filters :: filters where
  "no_filters =
     \<lparr>district_filter = [], upazila_filter = [], village_filter = [], type_filter = []\<rparr>"

definition sample_docs :: "(string \<times> event) list" where
  "sample_docs =
     [(''docA'', doc_of ''Dhaka'' ''Savar'' (Some ''2026-02-28T10:15:00.000Z'')),
      (''docB'', doc_of ''Sylhet'' ''Savarna'' (Some ''2026-03-01T10:15:00.000Z'')),
      (''docC'', doc_of ''Dhaka'' ''SAVAR'' (Some ''2026-03-01T10:15:00.000Z'')),
      (''docD'', doc_of ''Dhaka'' ''Dhamrai'' None)]"

definition old_docs :: "(string \<times> event) list" where
  "old_docs =
     [(''docP'', doc_of ''Dhaka'' ''Savar'' (Some ''1969-12-31T23:59:59.000Z'')),
      (''docM'', doc_of ''Dhaka'' ''Savar'' None)]"

text \<open>
  A snapshot in which the second document has a timestamp that is no date, between two
  dated ones.
\<close>

definition undated_docs :: "(string \<times> event) list" where
  "undated_docs =
     [(''docA'', doc_of ''Dhaka'' ''Savar'' (Some ''2026-02-28T10:15:00.000Z'')),
      (''docX'', doc_of ''Dhaka'' ''Savar'' (Some ''soon'')),
      (''docC'', doc_of ''Dhaka'' ''SAVAR'' (Some ''2026-03-01T10:15:00.000Z''))]"

text \<open>
  An answer of the primary store to the query in descending order of \<^verbatim>\<open>created_at\<close>: a row
  without a timestamp, then a dated one. A store that puts rows without a value first in
  descending order answers so; it is the default of PostgreSQL, and the query names no
  other place for them.
\<close>

definition primary_answer :: "event list" where
  "primary_answer =
     [(doc_of ''Dhaka'' ''Dhamrai'' None)\<lparr>id_of := Some (IdNum 2)\<rparr>, sample_event]"

section \<open>The write path\<close>

text \<open>
  C1. In \<^verbatim>\<open>handleSubmit\<close>, when a submission is not already under way: if the insert into
  the primary store fails, the handler ends in failure, the insert is the only request
  sent and the local cache is untouched; if the insert succeeds, the handler ends in
  success whatever the secondary store, the local cache and the drive export do.
\<close>

theorem handleSubmit_primary_decides:
  "\<not> isSubmitting \<Longrightarrow>
   (supabase_insert env = Rejects \<longrightarrow>
      ending (handleSubmit env isSubmitting isGoogleConnected formData db) = Failure
      \<and> alerts (handleSubmit env isSubmitting isGoogleConnected formData db) = [AlertAddFailed]
      \<and> calls (handleSubmit env isSubmitting isGoogleConnected formData db)
          = [SupabaseInsert (formData\<lparr>created_at := Some (now env)\<rparr>)]
      \<and> cache (handleSubmit env isSubmitting isGoogleConnected formData db) = db)
   \<and> (supabase_insert env = Resolves \<longrightarrow>
      ending (handleSubmit env isSubmitting isGoogleConnected formData db) = Success
      \<and> alerts (handleSubmit env isSubmitting isGoogleConnected formData db) = [AlertAdded])"
  by (simp add: handleSubmit_def Let_def)

theorem handleSubmit_primary_decides_witness:
  "ending (handleSubmit (submit_env_of Rejects Resolves Resolves Resolves) False True
             sample_form (Some sample_table)) = Failure
   \<and> calls (handleSubmit (submit_env_of Rejects Resolves Resolves Resolves) False True
             sample_form (Some sample_table))
       = [SupabaseInsert (sample_form\<lparr>created_at := Some ''2026-02-28T10:15:00.000Z''\<rparr>)]
   \<and> ending (handleSubmit (submit_env_of Resolves Rejects Rejects Rejects) False True
             sample_form (Some sample_table)) = Success"
  using handleSubmit_primary_decides
          [of False "submit_env_of Rejects Resolves Resolves Resolves" True sample_form
              "Some sample_table"]
        handleSubmit_primary_decides
          [of False "submit_env_of Resolves Rejects Rejects Rejects" True sample_form
              "Some sample_table"]
  by (simp add: submit_env_of_def)

text \<open>
  C6. One submission with the drive connected, every backend answering: the primary
  store, the secondary store and the local cache are sent the event with the creation
  timestamp of the submission, and the drive export is sent the form as it is, which has
  no creation timestamp.
\<close>

theorem handleSubmit_drive_copy_lacks_timestamp:
  "map (\<lambda>c. map_option created_at (written c))
     (calls (handleSubmit (submit_env_of Resolves Resolves Resolves Resolves) False True
               sample_form (Some sample_table)))
     = [Some (Some ''2026-02-28T10:15:00.000Z''), Some (Some ''2026-02-28T10:15:00.000Z''),
        Some (Some ''2026-02-28T10:15:00.000Z''), Some None]
   \<and> calls (handleSubmit (submit_env_of Resolves Resolves Resolves Resolves) False True
               sample_form (Some sample_table)) ! 3
       = PostDriveSave sample_form"
  by (simp add: handleSubmit_def submit_env_of_def Let_def JSON_stringify_def json_number_def
        sample_form_def)

text \<open>
  The three stores, for every form: the same event with the same creation timestamp goes
  to the primary store, to the secondary store and, as JSON, to the local cache.
\<close>

lemma handleSubmit_store_copies:
  assumes "\<not> isSubmitting" and "supabase_insert env = Resolves"
  shows "take 3 (calls (handleSubmit env isSubmitting isGoogleConnected formData db))
           = [SupabaseInsert (formData\<lparr>created_at := Some (now env)\<rparr>),
              FirebaseAddDoc (formData\<lparr>created_at := Some (now env)\<rparr>),
              PostApiEvents (JSON_stringify (formData\<lparr>created_at := Some (now env)\<rparr>))]"
  using assms by (simp add: handleSubmit_def Let_def)

text \<open>
  C9, as the code has it. For every submission that is not already under way, when the
  text typed into the latitude or the longitude input is one that \<^verbatim>\<open>parseFloat\<close> maps to
  \<open>NaN\<close>: nothing validates it, and the only alert is that of the primary store's outcome.
  The events handed to the primary and to the secondary store carry \<open>NaN\<close> in that
  coordinate; the JSON sent to the local cache and to the drive export carries none. The
  local cache stores a row exactly when the primary insert succeeded, the request
  arrived, the database is open and the statement did not raise; that row is the one
  the rest of the form gives, with no value in the coordinate. In every other case the
  table is as it was.
\<close>

theorem malformed_coordinate_copies:
  assumes "parseFloat v = NaN" and "\<not> isSubmitting"
  shows
    "alerts (handleSubmit env isSubmitting isGoogleConnected
               (onChange_lat parseFloat v formData) db)
       = [if supabase_insert env = Resolves then AlertAdded else AlertAddFailed]
     \<and> sent_lat (calls (handleSubmit env isSubmitting isGoogleConnected
                          (onChange_lat parseFloat v formData) db))
       = (if supabase_insert env = Resolves
          then [Some (Some NaN), Some (Some NaN), Some None]
               @ (if isGoogleConnected then [Some None] else [])
          else [Some (Some NaN)])
     \<and> cache (handleSubmit env isSubmitting isGoogleConnected
                 (onChange_lat parseFloat v formData) db)
       = (if supabase_insert env = Resolves \<and> fetch_api_events env = Resolves
             \<and> \<not> insert_stmt_throws env
          then map_option
                 (\<lambda>t. \<lparr>rows = rows t @
                              [(insert_row (JSON_stringify
                                              (formData\<lparr>created_at := Some (now env)\<rparr>))
                                  (insert_server_now env) (seq t + 1))\<lparr>lat := None\<rparr>],
                       seq = seq t + 1\<rparr>) db
          else db)
     \<and> alerts (handleSubmit env isSubmitting isGoogleConnected
               (onChange_lng parseFloat v formData) db)
       = [if supabase_insert env = Resolves then AlertAdded else AlertAddFailed]
     \<and> sent_lng (calls (handleSubmit env isSubmitting isGoogleConnected
                          (onChange_lng parseFloat v formData) db))
       = (if supabase_insert env = Resolves
          then [Some (Some NaN), Some (Some NaN), Some None]
               @ (if isGoogleConnected then [Some None] else [])
          else [Some (Some NaN)])
     \<and> cache (handleSubmit env isSubmitting isGoogleConnected
                 (onChange_lng parseFloat v formData) db)
       = (if supabase_insert env = Resolves \<and> fetch_api_events env = Resolves
             \<and> \<not> insert_stmt_throws env
          then map_option
                 (\<lambda>t. \<lparr>rows = rows t @
                              [(insert_row (JSON_stringify
                                              (formData\<lparr>created_at := Some (now env)\<rparr>))
                                  (insert_server_now env) (seq t + 1))\<lparr>lng := None\<rparr>],
                       seq = seq t + 1\<rparr>) db
          else db)"
proof -
  have a: "supabase_insert env = Resolves \<or> supabase_insert env = Rejects"
    by (cases "supabase_insert env") simp_all
  have b: "fetch_api_events env = Resolves \<or> fetch_api_events env = Rejects"
    by (cases "fetch_api_events env") simp_all
  show ?thesis
    using assms a b
    by (cases db)
       (auto simp add: handleSubmit_def Let_def post_api_events_def onChange_lat_def
          onChange_lng_def JSON_stringify_def json_number_def insert_row_def sent_lat_def
          sent_lng_def)
qed

theorem malformed_coordinate_copies_witness:
  "parseFloat_sample ''abc'' = NaN
   \<and> alerts (handleSubmit (submit_env_of Resolves Resolves Resolves Resolves) False True
               (onChange_lat parseFloat_sample ''abc'' sample_form) (Some sample_table))
       = [AlertAdded]
   \<and> sent_lat (calls (handleSubmit (submit_env_of Resolves Resolves Resolves Resolves) False True
                          (onChange_lat parseFloat_sample ''abc'' sample_form)
                          (Some sample_table)))
       = [Some (Some NaN), Some (Some NaN), Some None, Some None]
   \<and> map lat (case cache (handleSubmit (submit_env_of Resolves Resolves Resolves Resolves)
                               False True (onChange_lat parseFloat_sample ''abc'' sample_form)
                               (Some sample_table)) of
                 None \<Rightarrow> [] | Some t \<Rightarrow> rows t)
       = [None, None]
   \<and> cache (handleSubmit (submit_env_of Resolves Resolves Rejects Resolves) False True
               (onChange_lat parseFloat_sample ''abc'' sample_form) (Some sample_table))
       = Some sample_table"
proof -
  have p: "parseFloat_sample ''abc'' = NaN"
    by (simp add: parseFloat_sample_def)
  show ?thesis
    using malformed_coordinate_copies
            [of parseFloat_sample "''abc''" False
                "submit_env_of Resolves Resolves Resolves Resolves" True sample_form
                "Some sample_table"]
          malformed_coordinate_copies
            [of parseFloat_sample "''abc''" False
                "submit_env_of Resolves Resolves Rejects Resolves" True sample_form
                "Some sample_table"]
          p
    by (simp add: submit_env_of_def sample_table_def insert_row_def sample_form_def)
qed

text \<open>
  The form of the sample with \<^verbatim>\<open>abc\<close> typed into the latitude input, every backend
  answering: the events handed to the primary and to the secondary store have the
  latitude \<open>NaN\<close>, a value that is there, while the two JSON bodies have none.
\<close>

theorem malformed_coordinate_counterexample:
  "sent_lat (calls (handleSubmit (submit_env_of Resolves Resolves Resolves Resolves) False True
                      (onChange_lat parseFloat_sample ''abc'' sample_form) (Some sample_table)))
     = [Some (Some NaN), Some (Some NaN), Some None, Some None]
   \<and> calls (handleSubmit (submit_env_of Resolves Resolves Resolves Resolves) False True
              (onChange_lat parseFloat_sample ''abc'' sample_form) (Some sample_table)) ! 1
       = FirebaseAddDoc (sample_form\<lparr>lat := Some NaN,
                                       created_at := Some ''2026-02-28T10:15:00.000Z''\<rparr>)"
  by (simp add: handleSubmit_def submit_env_of_def Let_def JSON_stringify_def json_number_def
        onChange_lat_def parseFloat_sample_def sent_lat_def sample_form_def)

section \<open>The delete path\<close>

text \<open>
  C4. In \<^verbatim>\<open>deleteEvent\<close>, for every identifier: when the text the user typed is not the
  fixed secret, no request is sent to any backend, the local cache is unchanged, and the
  list is not refreshed.
\<close>

theorem deleteEvent_wrong_secret:
  "password env \<noteq> Some ''0179215718'' \<Longrightarrow>
     calls (deleteEvent env coerce i db) = []
   \<and> cache (deleteEvent env coerce i db) = db
   \<and> \<not> refreshed (deleteEvent env coerce i db)
   \<and> ending (deleteEvent env coerce i db) = NotStarted
   \<and> alerts (deleteEvent env coerce i db) = [AlertWrongPassword]"
  by (simp add: deleteEvent_def)

theorem deleteEvent_wrong_secret_witness:
  "calls (deleteEvent (delete_env_of (Some ''letmein'') Resolves Resolves Resolves) Map.empty
            (IdNum 1) (Some sample_table)) = []
   \<and> cache (deleteEvent (delete_env_of None Resolves Resolves Resolves) Map.empty
            (IdNum 1) (Some sample_table)) = Some sample_table"
  using deleteEvent_wrong_secret
          [of "delete_env_of (Some ''letmein'') Resolves Resolves Resolves" Map.empty "IdNum 1"
              "Some sample_table"]
        deleteEvent_wrong_secret
          [of "delete_env_of None Resolves Resolves Resolves" Map.empty "IdNum 1"
              "Some sample_table"]
  by (simp add: delete_env_of_def)

text \<open>
  Past the two dialogs: a failure of the primary store ends the handler with that one
  request sent; otherwise the secondary store is asked exactly for a text identifier, and
  the local cache is asked in every case.
\<close>

lemma deleteEvent_after_gate:
  assumes "password env = Some ''0179215718''" and "confirmed env"
  shows "(supabase_delete env = Rejects \<longrightarrow>
            calls (deleteEvent env coerce i db) = [SupabaseDelete i]
          \<and> ending (deleteEvent env coerce i db) = Failure
          \<and> cache (deleteEvent env coerce i db) = db)
       \<and> (supabase_delete env = Resolves \<longrightarrow>
            calls (deleteEvent env coerce i db)
              = [SupabaseDelete i]
                @ (case i of IdStr s \<Rightarrow> [FirebaseDeleteDoc s] | IdNum n \<Rightarrow> [])
                @ [PostApiEventsDelete i])
       \<and> (supabase_delete env = Resolves \<and> fetch_api_delete env = Resolves \<longrightarrow>
            ending (deleteEvent env coerce i db) = Success)"
  using assms by (simp add: deleteEvent_def Let_def split: outcome.splits)

text \<open>
  C5. Deleting event 1 with the right secret, the primary store answering, and the
  request to the local cache rejected: the handler ends in its \<^verbatim>\<open>catch\<close> block, shows the
  alert of failure and does not refresh the list. The rejection is not swallowed.
\<close>

theorem deleteEvent_cache_request_rejected:
  "deleteEvent (delete_env_of (Some ''0179215718'') Resolves Resolves Rejects) Map.empty
     (IdNum 1) (Some sample_table)
     = \<lparr> ending = Failure, alerts = [AlertDeleteFailed],
         console = [LogError ''Failed to delete event''],
         calls = [SupabaseDelete (IdNum 1), PostApiEventsDelete (IdNum 1)],
         cache = Some sample_table, refreshed = False \<rparr>"
  by (simp add: deleteEvent_def delete_env_of_def)

section \<open>The local cache\<close>

lemma filter_no_match: "\<forall>r \<in> set rs. \<not> P r \<Longrightarrow> filter (\<lambda>r. \<not> P r) rs = rs"
  by (induction rs) auto

text \<open>
  C10. \<^verbatim>\<open>POST /api/events/delete\<close> answers \<^verbatim>\<open>{success: true}\<close> also when no row has the
  identifier, and the table is then unchanged; it answers with an error exactly when the
  database is not initialised or the statement fails.
\<close>

theorem delete_missing_id_succeeds:
  "(db = Some t \<and> \<not> stmt_throws \<and> (\<forall>r \<in> set (rows t). \<not> sql_id_eq coerce i r)
      \<longrightarrow> post_api_events_delete coerce db i stmt_throws
            = (\<lparr>status = 200, body = SuccessBody\<rparr>, db))
   \<and> (body (fst (post_api_events_delete coerce db i stmt_throws)) \<noteq> SuccessBody
        \<longleftrightarrow> db = None \<or> stmt_throws)
   \<and> (status (fst (post_api_events_delete coerce db i stmt_throws)) = 500
        \<longleftrightarrow> db = None \<or> stmt_throws)"
  by (cases db) (simp_all add: post_api_events_delete_def filter_no_match)

theorem delete_missing_id_succeeds_witness:
  "post_api_events_delete Map.empty (Some sample_table) (IdNum 7) False
     = (\<lparr>status = 200, body = SuccessBody\<rparr>, Some sample_table)
   \<and> status (fst (post_api_events_delete Map.empty None (IdNum 7) False)) = 500"
  using delete_missing_id_succeeds [of "Some sample_table" sample_table False Map.empty "IdNum 7"]
        delete_missing_id_succeeds [of None sample_table False Map.empty "IdNum 7"]
  by (simp add: sample_table_def sql_id_eq_def insert_row_def)

section \<open>The drive export\<close>

text \<open>
  C7. \<^verbatim>\<open>POST /api/drive/save\<close> on a session without tokens answers 401 with the body
  \<^verbatim>\<open>{error: "Not connected to Google Drive"}\<close> and sends nothing to the drive service;
  on a session with tokens it answers 500 when a request to the drive service fails.
\<close>

theorem drive_save_unauthenticated:
  "drive_save None eventData env
     = (\<lparr>status = 401, body = ErrorBody ''Not connected to Google Drive''\<rparr>, [])
   \<and> (drive_api_fails env \<longrightarrow> status (fst (drive_save (Some tokens) eventData env)) = 500)"
  by (auto simp add: drive_save_def drive_api_fails_def create_event_file_def Let_def
        split: option.splits list.splits)

theorem drive_save_unauthenticated_witness:
  "drive_save (None :: unit option) (Some sample_form) (drive_env_of (Some []) None (Some ''f1''))
     = (\<lparr>status = 401, body = ErrorBody ''Not connected to Google Drive''\<rparr>, [])
   \<and> status (fst (drive_save (Some ()) (Some sample_form)
                      (drive_env_of (Some []) None (Some ''f1'')))) = 500"
  using drive_save_unauthenticated
          [of "Some sample_form" "drive_env_of (Some []) None (Some ''f1'')" "()"]
  by (simp add: drive_api_fails_def drive_env_of_def)

text \<open>
  C8, as the code has it. With tokens, an event in the body and a drive service that
  answers: the handler looks for the folder named \<^verbatim>\<open>Iftar Shondhane\<close> and creates it only
  when none is found, then creates one file in that folder, named by the event's name,
  an underscore, the server's clock in milliseconds at the export, and \<^verbatim>\<open>.json\<close>, holding
  the indented JSON text of the event. It never looks for a file of an earlier export, so
  every export creates a file.
\<close>

theorem drive_save_creates_file:
  "files_list env = Some found \<Longrightarrow> (found = [] \<longrightarrow> create_folder env = Some created) \<Longrightarrow>
   create_file env = Some fileId \<Longrightarrow>
   drive_save (Some tokens) (Some ev) env =
     (\<lparr>status = 200, body = SuccessFileId fileId\<rparr>,
      (if found = []
       then [FilesList folder_query,
             CreateFolder ''Iftar Shondhane'' ''application/vnd.google-apps.folder'']
       else [FilesList folder_query]) @
      [CreateFile (template_text (name ev) @ ''_'' @ Number_toString (date_now env) @ ''.json'')
         (if found = [] then created else hd found)
         ''application/json'' (Json_indent2 ev)])"
  by (cases found) (simp_all add: drive_save_def create_event_file_def file_name_def Let_def)

lemma ms_feb28: "Number_toString 1772273700000 = ''1772273700000''"
  by (simp add: Number_toString_def decimal_digits.simps digit_char_def)

lemma ms_mar01: "Number_toString 1772360100000 = ''1772360100000''"
  by (simp add: Number_toString_def decimal_digits.simps digit_char_def)

theorem drive_save_creates_file_witness:
  "drive_save (Some ()) (Some sample_form) (drive_env_of (Some []) (Some ''d1'') (Some ''f1''))
     = (\<lparr>status = 200, body = SuccessFileId ''f1''\<rparr>,
        [FilesList folder_query,
         CreateFolder ''Iftar Shondhane'' ''application/vnd.google-apps.folder'',
         CreateFile ''Community Iftar_1772273700000.json'' ''d1'' ''application/json''
           (Json_indent2 sample_form)])"
  using drive_save_creates_file
          [of "drive_env_of (Some []) (Some ''d1'') (Some ''f1'')" "[]" "''d1''" "''f1''"
              "()" sample_form]
  by (simp add: drive_env_of_def template_text_def sample_form_def ms_feb28)

text \<open>
  The same event, submitted on 28 February, exported at two moments a day apart: the two
  files have different names, and neither name holds the timestamp of the submission.
\<close>

theorem drive_file_name_counterexample:
  "created_at sample_event = Some ''2026-02-28T10:15:00.000Z''
   \<and> snd (drive_save (Some ()) (Some sample_event) (drive_env_at 1772273700000))
       = [FilesList folder_query,
          CreateFile ''Community Iftar_1772273700000.json'' ''d1'' ''application/json''
            (Json_indent2 sample_event)]
   \<and> snd (drive_save (Some ()) (Some sample_event) (drive_env_at 1772360100000))
       = [FilesList folder_query,
          CreateFile ''Community Iftar_1772360100000.json'' ''d1'' ''application/json''
            (Json_indent2 sample_event)]"
  by (simp add: drive_save_def create_event_file_def file_name_def drive_env_at_def
        template_text_def sample_event_def sample_form_def ms_feb28 ms_mar01)

section \<open>The read path\<close>

lemma take_length_iff: "take (length t) s = t \<longleftrightarrow> (\<exists>q. s = t @ q)"
  by (metis append_eq_conv_conj append_take_drop_id)

lemma includes_text_iff: "includes_text s t \<longleftrightarrow> (\<exists>p q. s = p @ t @ q)"
proof (induction s)
  case Nil
  show ?case by auto
next
  case (Cons c s)
  have "(\<exists>p q. c # s = p @ t @ q) \<longleftrightarrow> (\<exists>q. c # s = t @ q) \<or> (\<exists>p q. s = p @ t @ q)"
  proof
    assume "\<exists>p q. c # s = p @ t @ q"
    then obtain p q where pq: "c # s = p @ t @ q" by blast
    show "(\<exists>q. c # s = t @ q) \<or> (\<exists>p q. s = p @ t @ q)"
    proof (cases p)
      case Nil
      with pq show ?thesis by auto
    next
      case (Cons a p')
      with pq have "s = p' @ t @ q" by simp
      then show ?thesis by blast
    qed
  next
    assume "(\<exists>q. c # s = t @ q) \<or> (\<exists>p q. s = p @ t @ q)"
    then show "\<exists>p q. c # s = p @ t @ q"
    proof
      assume "\<exists>q. c # s = t @ q"
      then obtain q where "c # s = [] @ t @ q" by auto
      then show ?thesis by blast
    next
      assume "\<exists>p q. s = p @ t @ q"
      then obtain p q where "c # s = (c # p) @ t @ q" by auto
      then show ?thesis by blast
    qed
  qed
  with Cons show ?case
    by (simp only: includes_text.simps take_length_iff)
qed

lemma matches_iff:
  "matches lc flt d \<longleftrightarrow>
     (district_filter flt \<noteq> [] \<longrightarrow> district d = Some (district_filter flt))
   \<and> (type_filter flt \<noteq> [] \<longrightarrow> type d = Some (type_filter flt))
   \<and> (upazila_filter flt \<noteq> [] \<longrightarrow> includes_lower lc (upazila d) (upazila_filter flt))
   \<and> (village_filter flt \<noteq> [] \<longrightarrow> includes_lower lc (village d) (village_filter flt))"
  by (auto simp add: matches_def Let_def)

lemma includes_lower_iff:
  "includes_lower lc x f \<longleftrightarrow> (\<exists>u p q. x = Some u \<and> lc u = p @ lc f @ q)"
  by (cases x) (simp_all add: includes_lower_def includes_text_iff)

lemma with_doc_id_fields:
  "district (with_doc_id i d) = district d"
  "type (with_doc_id i d) = type d"
  "upazila (with_doc_id i d) = upazila d"
  "village (with_doc_id i d) = village d"
  "created_at (with_doc_id i d) = created_at d"
  by (simp_all add: with_doc_id_def split: option.splits)

lemma collect_map_filter:
  "collect lc flt docs
     = map (\<lambda>(i, d). with_doc_id i d) (filter (\<lambda>(i, d). matches lc flt d) docs)"
  by (induction docs) auto

lemma in_collect:
  "e \<in> set (collect lc flt docs)
     \<longleftrightarrow> (\<exists>i d. (i, d) \<in> set docs \<and> matches lc flt d \<and> e = with_doc_id i d)"
  by (auto simp add: collect_map_filter)

lemma set_insert_sorted: "set (insert_sorted c x ys) = insert x (set ys)"
  by (induction ys) auto

lemma set_Array_sort: "set (Array_sort c xs) = set xs"
  by (induction xs) (simp_all add: set_insert_sorted)

text \<open>Evaluating the loop and the sort on the sample documents.\<close>

lemma lower_sav: "toLowerCase_ascii ''sav'' = ''sav''"
  by (simp add: toLowerCase_ascii_def lower_char_def)

lemma lower_Savar: "toLowerCase_ascii ''Savar'' = ''savar''"
  by (simp add: toLowerCase_ascii_def lower_char_def)

lemma lower_SAVAR: "toLowerCase_ascii ''SAVAR'' = ''savar''"
  by (simp add: toLowerCase_ascii_def lower_char_def)

lemma lower_Savarna: "toLowerCase_ascii ''Savarna'' = ''savarna''"
  by (simp add: toLowerCase_ascii_def lower_char_def)

lemma lower_Dhamrai: "toLowerCase_ascii ''Dhamrai'' = ''dhamrai''"
  by (simp add: toLowerCase_ascii_def lower_char_def)

lemma sample_collect:
  "collect toLowerCase_ascii sample_filters sample_docs
     = [with_doc_id ''docA'' (doc_of ''Dhaka'' ''Savar'' (Some ''2026-02-28T10:15:00.000Z'')),
        with_doc_id ''docC'' (doc_of ''Dhaka'' ''SAVAR'' (Some ''2026-03-01T10:15:00.000Z''))]"
  by (simp add: sample_docs_def sample_filters_def matches_def includes_lower_def doc_of_def
        lower_sav lower_Savar lower_SAVAR lower_Savarna lower_Dhamrai)

lemma sample_sorted:
  "events (fetchEvents getTime_sample toLowerCase_ascii sample_filters PrimaryError
             (Snapshot sample_docs) [])
     = [with_doc_id ''docC'' (doc_of ''Dhaka'' ''SAVAR'' (Some ''2026-03-01T10:15:00.000Z'')),
        with_doc_id ''docA'' (doc_of ''Dhaka'' ''Savar'' (Some ''2026-02-28T10:15:00.000Z''))]"
  by (simp add: fetchEvents_def sample_collect comes_after_def compare_created_at_def
        sort_time_def with_doc_id_fields getTime_sample_def doc_of_def)

text \<open>
  C2. In \<^verbatim>\<open>fetchEvents\<close>, when the primary store reports an error and the secondary store
  answers: the requests are the query to the primary store and one unfiltered read of
  the secondary store; no request goes to the local cache, whatever the stores answer;
  and every event of the result is a document of the snapshot that meets each active
  filter: district and category are equal to the filter, sub-district and village
  contain the filter as a substring after both are put in lower case.
\<close>

theorem fetchEvents_fallback_filters:
  "requests (fetchEvents getTime toLowerCase flt PrimaryError (Snapshot docs) old_events)
     = [SupabaseSelect (build_query flt), FirebaseGetDocs]
   \<and> GetApiEvents \<notin> set (requests (fetchEvents getTime toLowerCase flt primary secondary old_events))
   \<and> (\<forall>e \<in> set (events (fetchEvents getTime toLowerCase flt PrimaryError (Snapshot docs)
                              old_events)).
        (\<exists>docId data. (docId, data) \<in> set docs \<and> e = with_doc_id docId data)
      \<and> (district_filter flt \<noteq> [] \<longrightarrow> district e = Some (district_filter flt))
      \<and> (type_filter flt \<noteq> [] \<longrightarrow> type e = Some (type_filter flt))
      \<and> (upazila_filter flt \<noteq> [] \<longrightarrow>
            (\<exists>u p q. upazila e = Some u
                     \<and> toLowerCase u = p @ toLowerCase (upazila_filter flt) @ q))
      \<and> (village_filter flt \<noteq> [] \<longrightarrow>
            (\<exists>v p q. village e = Some v
                     \<and> toLowerCase v = p @ toLowerCase (village_filter flt) @ q)))"
proof -
  have r: "requests (fetchEvents getTime toLowerCase flt PrimaryError (Snapshot docs) old_events)
             = [SupabaseSelect (build_query flt), FirebaseGetDocs]"
    by (simp add: fetchEvents_def)
  have n: "GetApiEvents \<notin> set (requests (fetchEvents getTime toLowerCase flt primary secondary
                                          old_events))"
    by (simp add: fetchEvents_def split: primary_reply.splits secondary_reply.splits option.splits)
  have e: "set (events (fetchEvents getTime toLowerCase flt PrimaryError (Snapshot docs) old_events))
             = set (collect toLowerCase flt docs)"
    by (simp add: fetchEvents_def set_Array_sort)
  have m: "(\<exists>docId data. (docId, data) \<in> set docs \<and> e = with_doc_id docId data)
      \<and> (district_filter flt \<noteq> [] \<longrightarrow> district e = Some (district_filter flt))
      \<and> (type_filter flt \<noteq> [] \<longrightarrow> type e = Some (type_filter flt))
      \<and> (upazila_filter flt \<noteq> [] \<longrightarrow>
            (\<exists>u p q. upazila e = Some u
                     \<and> toLowerCase u = p @ toLowerCase (upazila_filter flt) @ q))
      \<and> (village_filter flt \<noteq> [] \<longrightarrow>
            (\<exists>v p q. village e = Some v
                     \<and> toLowerCase v = p @ toLowerCase (village_filter flt) @ q))"
    if "e \<in> set (collect toLowerCase flt docs)" for e
  proof -
    from that obtain i d where d: "(i, d) \<in> set docs" and ok: "matches toLowerCase flt d"
      and e: "e = with_doc_id i d"
      by (auto simp add: in_collect)
    have "\<exists>docId data. (docId, data) \<in> set docs \<and> e = with_doc_id docId data"
      using d e by blast
    moreover have "district_filter flt \<noteq> [] \<longrightarrow> district e = Some (district_filter flt)"
      using ok e by (simp add: matches_iff with_doc_id_fields)
    moreover have "type_filter flt \<noteq> [] \<longrightarrow> type e = Some (type_filter flt)"
      using ok e by (simp add: matches_iff with_doc_id_fields)
    moreover have "upazila_filter flt \<noteq> [] \<longrightarrow>
            (\<exists>u p q. upazila e = Some u
                     \<and> toLowerCase u = p @ toLowerCase (upazila_filter flt) @ q)"
      using ok e by (simp add: matches_iff with_doc_id_fields includes_lower_iff)
    moreover have "village_filter flt \<noteq> [] \<longrightarrow>
            (\<exists>v p q. village e = Some v
                     \<and> toLowerCase v = p @ toLowerCase (village_filter flt) @ q)"
      using ok e by (simp add: matches_iff with_doc_id_fields includes_lower_iff)
    ultimately show ?thesis by blast
  qed
  show ?thesis
    unfolding e using r n m by blast
qed

theorem fetchEvents_fallback_filters_witness:
  "events (fetchEvents getTime_sample toLowerCase_ascii sample_filters PrimaryError
             (Snapshot sample_docs) [])
     = [with_doc_id ''docC'' (doc_of ''Dhaka'' ''SAVAR'' (Some ''2026-03-01T10:15:00.000Z'')),
        with_doc_id ''docA'' (doc_of ''Dhaka'' ''Savar'' (Some ''2026-02-28T10:15:00.000Z''))]
   \<and> district (with_doc_id ''docC'' (doc_of ''Dhaka'' ''SAVAR'' (Some ''2026-03-01T10:15:00.000Z'')))
       = Some ''Dhaka''
   \<and> (\<exists>u p q. upazila (with_doc_id ''docC''
                        (doc_of ''Dhaka'' ''SAVAR'' (Some ''2026-03-01T10:15:00.000Z''))) = Some u
                \<and> toLowerCase_ascii u = p @ toLowerCase_ascii ''sav'' @ q)
   \<and> requests (fetchEvents getTime_sample toLowerCase_ascii sample_filters PrimaryError
                 (Snapshot sample_docs) [])
       = [SupabaseSelect (build_query sample_filters), FirebaseGetDocs]"
  using fetchEvents_fallback_filters
          [of getTime_sample toLowerCase_ascii sample_filters sample_docs "[]"
              PrimaryError "Snapshot sample_docs"]
  by (simp add: sample_sorted) (simp add: sample_filters_def)

subsection \<open>The order of the listing\<close>

lemma sorted_insert_sorted:
  assumes "\<forall>b \<in> set ys. comes_after c x b \<longleftrightarrow> k x < k b"
    and "sorted_wrt (\<lambda>a b. k b \<le> k a) ys"
  shows "sorted_wrt (\<lambda>a b. (k b :: int) \<le> k a) (insert_sorted c x ys)"
  using assms
proof (induction ys)
  case Nil
  show ?case by simp
next
  case (Cons y ys)
  show ?case
  proof (cases "comes_after c x y")
    case True
    with Cons.prems have "k x < k y" by simp
    moreover have "sorted_wrt (\<lambda>a b. k b \<le> k a) (insert_sorted c x ys)"
      using Cons by simp
    ultimately show ?thesis
      using True Cons.prems by (auto simp add: set_insert_sorted)
  next
    case False
    with Cons.prems have "k y \<le> k x" by auto
    with False Cons.prems show ?thesis by fastforce
  qed
qed

lemma sorted_Array_sort:
  assumes "\<forall>a \<in> set xs. \<forall>b \<in> set xs. comes_after c a b \<longleftrightarrow> k a < k b"
  shows "sorted_wrt (\<lambda>a b. (k b :: int) \<le> k a) (Array_sort c xs)"
  using assms
proof (induction xs)
  case Nil
  show ?case by simp
next
  case (Cons x xs)
  have "sorted_wrt (\<lambda>a b. k b \<le> k a) (Array_sort c xs)"
    using Cons by simp
  moreover have "\<forall>b \<in> set (Array_sort c xs). comes_after c x b \<longleftrightarrow> k x < k b"
    using Cons.prems by (simp add: set_Array_sort)
  ultimately show ?case
    by (simp add: sorted_insert_sorted)
qed

lemma comes_after_created_at:
  assumes "sort_time getTime a \<noteq> None" "sort_time getTime b \<noteq> None"
  shows "comes_after (compare_created_at getTime) a b \<longleftrightarrow> sort_ms getTime a < sort_ms getTime b"
  using assms by (auto simp add: comes_after_def compare_created_at_def sort_ms_def)

lemma sort_time_missing: "or_null (created_at a) = None \<Longrightarrow> sort_time getTime a = Some 0"
  by (auto simp add: or_null_def sort_time_def split: option.splits if_splits)

lemma sorted_fallback:
  assumes "\<forall>e \<in> set xs. sort_time getTime e \<noteq> None"
  shows "sorted_wrt (\<lambda>a b. \<exists>ta tb. sort_time getTime a = Some ta \<and> sort_time getTime b = Some tb
                          \<and> tb \<le> ta \<and> (or_null (created_at a) = None \<longrightarrow> tb \<le> 0))
           (Array_sort (compare_created_at getTime) xs)"
proof -
  let ?res = "Array_sort (compare_created_at getTime) xs"
  have s: "sorted_wrt (\<lambda>a b. sort_ms getTime b \<le> sort_ms getTime a) ?res"
    by (rule sorted_Array_sort) (use assms comes_after_created_at in blast)
  have d: "\<forall>e \<in> set ?res. sort_time getTime e \<noteq> None"
    using assms by (simp add: set_Array_sort)
  show ?thesis
  proof (rule sorted_wrt_mono_rel [OF _ s])
    fix a b
    assume a: "a \<in> set ?res" and b: "b \<in> set ?res"
      and le: "sort_ms getTime b \<le> sort_ms getTime a"
    from a d obtain ta where ta: "sort_time getTime a = Some ta" by auto
    from b d obtain tb where tb: "sort_time getTime b = Some tb" by auto
    from le ta tb have "tb \<le> ta" by (simp add: sort_ms_def)
    moreover have "or_null (created_at a) = None \<longrightarrow> tb \<le> 0"
      using sort_time_missing [of a getTime] ta \<open>tb \<le> ta\<close> by auto
    ultimately show "\<exists>ta tb. sort_time getTime a = Some ta \<and> sort_time getTime b = Some tb
                          \<and> tb \<le> ta \<and> (or_null (created_at a) = None \<longrightarrow> tb \<le> 0)"
      using ta tb by simp
  qed
qed

lemma sorted_order_by_created_at_desc:
  "sorted_wrt (\<lambda>a b. created_at b \<le> created_at a) (order_by_created_at_desc rs)"
proof -
  have "sorted_wrt (\<lambda>a b. created_at a \<le> created_at b) (sort_key created_at (rev rs))"
    using sorted_sort_key [of created_at "rev rs"] by (simp add: sorted_map)
  then show ?thesis
    by (simp add: order_by_created_at_desc_def sorted_wrt_rev)
qed

lemma sort_time_with_doc_id: "sort_time getTime (with_doc_id i d) = sort_time getTime d"
  by (simp add: sort_time_def with_doc_id_fields)

text \<open>
  C3, as the code has it. On the fallback path, when every timestamp that is present
  and not empty is a date, the list is in non-increasing order of the sort key, which is
  the timestamp in milliseconds and 0, the epoch, for a missing or empty timestamp; so
  whatever follows an event without a timestamp is dated at the epoch or before it.
  \<^verbatim>\<open>GET /api/events\<close> answers the rows of the table in non-increasing order of the text
  \<^verbatim>\<open>created_at\<close>, rows without one last. On the primary path the client sends one query,
  in descending order of \<^verbatim>\<open>created_at\<close> and with no place named for the rows without one,
  and the list is the store's answer in the order the store gave it.
\<close>

theorem listing_order:
  assumes "\<forall>d \<in> set docs. sort_time getTime (snd d) \<noteq> None"
  shows
    "sorted_wrt (\<lambda>a b. \<exists>ta tb. sort_time getTime a = Some ta \<and> sort_time getTime b = Some tb
                          \<and> tb \<le> ta \<and> (or_null (created_at a) = None \<longrightarrow> tb \<le> 0))
       (events (fetchEvents getTime toLowerCase flt PrimaryError (Snapshot docs) old_events))
     \<and> (\<exists>rs. get_api_events (Some t) False = \<lparr>status = 200, body = EventsBody rs\<rparr>
              \<and> sorted_wrt (\<lambda>a b. created_at b \<le> created_at a) rs
              \<and> set rs = set (rows t) \<and> length rs = length (rows t))
     \<and> events (fetchEvents getTime toLowerCase flt (PrimaryData (Some data)) secondary old_events)
         = data
     \<and> requests (fetchEvents getTime toLowerCase flt (PrimaryData (Some data)) secondary
                   old_events)
         = [SupabaseSelect (build_query flt)]
     \<and> order_column (build_query flt) = ''created_at''
     \<and> \<not> ascending (build_query flt)
     \<and> nulls_first (build_query flt) = None"
proof -
  have "\<forall>e \<in> set (collect toLowerCase flt docs). sort_time getTime e \<noteq> None"
  proof
    fix e
    assume "e \<in> set (collect toLowerCase flt docs)"
    then obtain i d where d: "(i, d) \<in> set docs" and e: "e = with_doc_id i d"
      by (auto simp add: in_collect)
    from assms d have "sort_time getTime (snd (i, d)) \<noteq> None" by blast
    with e show "sort_time getTime e \<noteq> None"
      by (simp add: sort_time_with_doc_id)
  qed
  then have "sorted_wrt (\<lambda>a b. \<exists>ta tb. sort_time getTime a = Some ta \<and> sort_time getTime b = Some tb
                          \<and> tb \<le> ta \<and> (or_null (created_at a) = None \<longrightarrow> tb \<le> 0))
       (Array_sort (compare_created_at getTime) (collect toLowerCase flt docs))"
    by (rule sorted_fallback)
  moreover have "events (fetchEvents getTime toLowerCase flt PrimaryError (Snapshot docs) old_events)
      = Array_sort (compare_created_at getTime) (collect toLowerCase flt docs)"
    by (simp add: fetchEvents_def)
  ultimately have "sorted_wrt (\<lambda>a b. \<exists>ta tb. sort_time getTime a = Some ta \<and> sort_time getTime b = Some tb
                          \<and> tb \<le> ta \<and> (or_null (created_at a) = None \<longrightarrow> tb \<le> 0))
       (events (fetchEvents getTime toLowerCase flt PrimaryError (Snapshot docs) old_events))"
    by (simp only:)
  moreover have "\<exists>rs. get_api_events (Some t) False = \<lparr>status = 200, body = EventsBody rs\<rparr>
              \<and> sorted_wrt (\<lambda>a b. created_at b \<le> created_at a) rs
              \<and> set rs = set (rows t) \<and> length rs = length (rows t)"
    by (simp add: get_api_events_def sorted_order_by_created_at_desc)
       (simp add: order_by_created_at_desc_def)
  moreover have "events (fetchEvents getTime toLowerCase flt (PrimaryData (Some data)) secondary
                   old_events) = data"
    by (simp add: fetchEvents_def)
  moreover have "requests (fetchEvents getTime toLowerCase flt (PrimaryData (Some data)) secondary
                   old_events) = [SupabaseSelect (build_query flt)]"
    by (simp add: fetchEvents_def)
  moreover have "order_column (build_query flt) = ''created_at''"
    and "\<not> ascending (build_query flt)" and "nulls_first (build_query flt) = None"
    by (simp_all add: build_query_def)
  ultimately show ?thesis by blast
qed

lemma sample_all_sorted:
  "events (fetchEvents getTime_sample toLowerCase_ascii no_filters PrimaryError
             (Snapshot sample_docs) [])
     = [with_doc_id ''docB'' (doc_of ''Sylhet'' ''Savarna'' (Some ''2026-03-01T10:15:00.000Z'')),
        with_doc_id ''docC'' (doc_of ''Dhaka'' ''SAVAR'' (Some ''2026-03-01T10:15:00.000Z'')),
        with_doc_id ''docA'' (doc_of ''Dhaka'' ''Savar'' (Some ''2026-02-28T10:15:00.000Z'')),
        with_doc_id ''docD'' (doc_of ''Dhaka'' ''Dhamrai'' None)]"
  by (simp add: fetchEvents_def sample_docs_def no_filters_def matches_def comes_after_def
        compare_created_at_def sort_time_def with_doc_id_fields getTime_sample_def doc_of_def)

theorem listing_order_witness:
  "events (fetchEvents getTime_sample toLowerCase_ascii no_filters PrimaryError
             (Snapshot sample_docs) [])
     = [with_doc_id ''docB'' (doc_of ''Sylhet'' ''Savarna'' (Some ''2026-03-01T10:15:00.000Z'')),
        with_doc_id ''docC'' (doc_of ''Dhaka'' ''SAVAR'' (Some ''2026-03-01T10:15:00.000Z'')),
        with_doc_id ''docA'' (doc_of ''Dhaka'' ''Savar'' (Some ''2026-02-28T10:15:00.000Z'')),
        with_doc_id ''docD'' (doc_of ''Dhaka'' ''Dhamrai'' None)]
   \<and> sorted_wrt (\<lambda>a b. \<exists>ta tb. sort_time getTime_sample a = Some ta
                          \<and> sort_time getTime_sample b = Some tb
                          \<and> tb \<le> ta \<and> (or_null (created_at a) = None \<longrightarrow> tb \<le> 0))
       (events (fetchEvents getTime_sample toLowerCase_ascii no_filters PrimaryError
                  (Snapshot sample_docs) []))
   \<and> (\<exists>rs. get_api_events (Some sample_table) False = \<lparr>status = 200, body = EventsBody rs\<rparr>
            \<and> sorted_wrt (\<lambda>a b. created_at b \<le> created_at a) rs
            \<and> set rs = set (rows sample_table) \<and> length rs = length (rows sample_table))
   \<and> requests (fetchEvents getTime_sample toLowerCase_ascii no_filters
                 (PrimaryData (Some primary_answer)) SecondaryError [])
       = [SupabaseSelect (build_query no_filters)]
   \<and> order_column (build_query no_filters) = ''created_at''
   \<and> \<not> ascending (build_query no_filters)"
proof -
  have h: "\<forall>d \<in> set sample_docs. sort_time getTime_sample (snd d) \<noteq> None"
    by (simp add: sample_docs_def sort_time_def getTime_sample_def doc_of_def)
  show ?thesis
    using listing_order [OF h, of toLowerCase_ascii no_filters "[]" sample_table primary_answer
                           SecondaryError]
      sample_all_sorted
    by (simp only: simp_thms)
qed

text \<open>
  Three lists that are not as the claim has them. On the fallback path, a document dated
  one second before the epoch, followed in the snapshot by a document without a
  timestamp: the sort moves the one without a timestamp to the front, not to the end.
  On the fallback path again, a document whose timestamp is no date, between a document
  of 28 February and one of 1 March: each of the two is a neighbour of that document
  only, every comparison with it is \<open>NaN\<close> and counts as 0, and the list stays as it was,
  the earlier date in front of the later one. On the primary path, the store's answer
  with the row without a timestamp first is shown as it is.
\<close>

theorem listing_order_counterexample:
  "events (fetchEvents getTime_sample toLowerCase_ascii no_filters PrimaryError
             (Snapshot old_docs) [])
     = [with_doc_id ''docM'' (doc_of ''Dhaka'' ''Savar'' None),
        with_doc_id ''docP'' (doc_of ''Dhaka'' ''Savar'' (Some ''1969-12-31T23:59:59.000Z''))]
   \<and> created_at (with_doc_id ''docM'' (doc_of ''Dhaka'' ''Savar'' None)) = None
   \<and> created_at (with_doc_id ''docP'' (doc_of ''Dhaka'' ''Savar'' (Some ''1969-12-31T23:59:59.000Z'')))
       = Some ''1969-12-31T23:59:59.000Z''
   \<and> map created_at
         (events (fetchEvents getTime_sample toLowerCase_ascii no_filters PrimaryError
                    (Snapshot undated_docs) []))
       = [Some ''2026-02-28T10:15:00.000Z'', Some ''soon'', Some ''2026-03-01T10:15:00.000Z'']
   \<and> getTime_sample ''2026-02-28T10:15:00.000Z'' = Some 1772273700000
   \<and> getTime_sample ''soon'' = None
   \<and> getTime_sample ''2026-03-01T10:15:00.000Z'' = Some 1772360100000
   \<and> map created_at
         (events (fetchEvents getTime_sample toLowerCase_ascii no_filters
                    (PrimaryData (Some primary_answer)) SecondaryError []))
       = [None, Some ''2026-02-28T10:15:00.000Z'']"
  by (simp add: fetchEvents_def old_docs_def undated_docs_def primary_answer_def sample_event_def
        no_filters_def matches_def comes_after_def compare_created_at_def sort_time_def
        with_doc_id_fields getTime_sample_def doc_of_def)

end
